theory Spec2Isabelle
  imports Main "HOL-Library.Word"
begin

section \<open>The Relax VM wrapper: device and allocator setup\<close>

text \<open>
  This theory embeds \<^verbatim>\<open>python/tvm/relax/vm.py\<close>: the method
  \<^verbatim>\<open>VirtualMachine._setup_device\<close>, which \<^verbatim>\<open>VirtualMachine.__init__\<close> calls with its
  \<^verbatim>\<open>device\<close> and \<^verbatim>\<open>memory_cfg\<close> arguments right after creating the native module.
  The method normalises the device argument, appends a CPU device when none is there,
  resolves the allocator configuration and hands a flat argument list to the native
  \<^verbatim>\<open>VirtualMachineInit\<close>.
\<close>

subsection \<open>Python values and the object store\<close>

text \<open>
  The method tests the dynamic type of its arguments, so the arguments are values of a
  small universe of Python objects: a \<^verbatim>\<open>tvm.runtime.Device\<close> with its two integer
  fields \<^verbatim>\<open>device_type\<close> and \<^verbatim>\<open>device_id\<close>, \<^verbatim>\<open>None\<close>, a string, an integer, a list, a
  tuple and a dict (an association list, looked up from the front). In this universe
  only a \<^verbatim>\<open>Device\<close> has the attributes \<^verbatim>\<open>device_type\<close> and \<^verbatim>\<open>device_id\<close>, and two
  devices are equal as dict keys exactly when both fields agree.
\<close>

datatype pyobj =
    Device int int
  | PyNone
  | PyStr string
  | PyInt int
  | PyList "pyobj list"
  | PyTuple "pyobj list"
  | PyDict "(pyobj \<times> pyobj) list"

text \<open>
  Python passes references. The caller's objects live in a store; \<^verbatim>\<open>dev\<close> and
  \<^verbatim>\<open>memory_cfg\<close> are addresses into it. The only statement of the method that mutates
  an object is \<^verbatim>\<open>devs.append(tvm.cpu())\<close>.
\<close>

type_synonym addr = nat
type_synonym heap = "addr \<Rightarrow> pyobj"

text \<open>
  The exceptions the method can raise. Both \<^verbatim>\<open>raise TypeError\<close> statements are kept
  apart by their message: the one about \<^verbatim>\<open>dev\<close> (line 89) and the one about
  \<^verbatim>\<open>memory_cfg\<close> (line 108). \<^verbatim>\<open>AssertionError\<close> is the \<^verbatim>\<open>assert\<close> of line 103
  (assertions enabled, as Python runs by default), \<^verbatim>\<open>AttributeError\<close> a failed
  attribute access, \<^verbatim>\<open>ZeroDivisionError\<close> a \<^verbatim>\<open>%\<close> by zero.
\<close>

datatype error =
    TypeError_dev
  | TypeError_memory_cfg
  | AssertionError
  | AttributeError
  | ZeroDivisionError

subsection \<open>Names imported by the module\<close>

text \<open>
  \<^verbatim>\<open>RPC_SESS_MASK\<close> (from \<^verbatim>\<open>tvm.rpc.base\<close>) and the device that \<^verbatim>\<open>tvm.cpu()\<close> returns
  are defined outside this file; the model takes them as parameters.
\<close>

record tvm =
  RPC_SESS_MASK :: int
  cpu_device_type :: int
  cpu_device_id :: int

definition tvm_cpu :: "tvm \<Rightarrow> pyobj" where
  "tvm_cpu c = Device (cpu_device_type c) (cpu_device_id c)"

definition NAIVE_ALLOCATOR :: int where
  "NAIVE_ALLOCATOR = 1"

definition POOLED_ALLOCATOR :: int where
  "POOLED_ALLOCATOR = 2"

subsection \<open>Attribute access and arithmetic\<close>

fun device_type :: "pyobj \<Rightarrow> error + int" where
  "device_type (Device t i) = Inr t"
| "device_type _ = Inl AttributeError"

fun device_id :: "pyobj \<Rightarrow> error + int" where
  "device_id (Device t i) = Inr i"
| "device_id _ = Inl AttributeError"

text \<open>Python's \<^verbatim>\<open>%\<close> on integers: floored, the sign of the divisor, and an error at 0.\<close>

definition py_mod :: "int \<Rightarrow> int \<Rightarrow> error + int" where
  "py_mod a b = (if b = 0 then Inl ZeroDivisionError else Inr (a mod b))"

text \<open>
  \<^verbatim>\<open>device.device_type % RPC_SESS_MASK\<close>, as lines 96 and 114 both compute it.
\<close>

definition masked_type :: "tvm \<Rightarrow> pyobj \<Rightarrow> error + int" where
  "masked_type c d =
     (case device_type d of
        Inl e \<Rightarrow> Inl e
      | Inr t \<Rightarrow> py_mod t (RPC_SESS_MASK c))"

subsection \<open>Lines 86 to 93: the device argument\<close>

text \<open>
  The local variable \<^verbatim>\<open>devs\<close> either refers to the caller's own object
  (\<^verbatim>\<open>devs = dev\<close>) or to the new one-element list \<^verbatim>\<open>[dev]\<close>, which nothing else
  refers to and which is therefore kept as a local value.
\<close>

datatype devs_ref = Alias addr | Fresh "pyobj list"

definition normalize_dev :: "heap \<Rightarrow> addr \<Rightarrow> error + devs_ref" where
  "normalize_dev h dev =
     (case h dev of
        PyList xs \<Rightarrow> Inr (Alias dev)
      | PyTuple xs \<Rightarrow> Inr (Alias dev)
      | Device t i \<Rightarrow> Inr (Fresh [Device t i])
      | _ \<Rightarrow> Inl TypeError_dev)"

text \<open>The elements that iterating over \<^verbatim>\<open>devs\<close> yields.\<close>

fun elems :: "heap \<Rightarrow> devs_ref \<Rightarrow> pyobj list" where
  "elems h (Fresh xs) = xs"
| "elems h (Alias a) =
     (case h a of PyList xs \<Rightarrow> xs | PyTuple xs \<Rightarrow> xs | _ \<Rightarrow> [])"

subsection \<open>Lines 95 to 97: CPU is required for executing shape functions\<close>

text \<open>
  \<^verbatim>\<open>any(c.device_type % RPC_SESS_MASK == tvm.cpu().device_type for c in devs)\<close>:
  the generator is consumed from the left and \<^verbatim>\<open>any\<close> stops at the first true element.
\<close>

fun any_cpu :: "tvm \<Rightarrow> pyobj list \<Rightarrow> error + bool" where
  "any_cpu c [] = Inr False"
| "any_cpu c (x # xs) =
     (case masked_type c x of
        Inl e \<Rightarrow> Inl e
      | Inr t \<Rightarrow> if t = cpu_device_type c then Inr True else any_cpu c xs)"

text \<open>
  \<^verbatim>\<open>devs.append(tvm.cpu())\<close>: a list grows in place, in the store when it is the
  caller's; a tuple has no \<^verbatim>\<open>append\<close>.
\<close>

fun append_cpu :: "tvm \<Rightarrow> heap \<Rightarrow> devs_ref \<Rightarrow> error + (heap \<times> devs_ref)" where
  "append_cpu c h (Fresh xs) = Inr (h, Fresh (xs @ [tvm_cpu c]))"
| "append_cpu c h (Alias a) =
     (case h a of
        PyList xs \<Rightarrow> Inr (h(a := PyList (xs @ [tvm_cpu c])), Alias a)
      | _ \<Rightarrow> Inl AttributeError)"

subsection \<open>Lines 99 to 111: the allocator configuration\<close>

text \<open>
  The result is \<^verbatim>\<open>default_alloc_type\<close> and the dict that \<^verbatim>\<open>memory_cfg\<close> is
  bound to afterwards (the empty one for \<^verbatim>\<open>None\<close> and for a string).
\<close>

definition resolve_memory_cfg :: "pyobj \<Rightarrow> error + (int \<times> (pyobj \<times> pyobj) list)" where
  "resolve_memory_cfg m =
     (case m of
        PyNone \<Rightarrow> Inr (POOLED_ALLOCATOR, [])
      | PyStr s \<Rightarrow>
          if s \<in> set [''naive'', ''pooled'']
          then Inr (if s = ''naive'' then NAIVE_ALLOCATOR else POOLED_ALLOCATOR, [])
          else Inl AssertionError
      | PyDict kvs \<Rightarrow> Inr (POOLED_ALLOCATOR, kvs)
      | _ \<Rightarrow> Inl TypeError_memory_cfg)"

subsection \<open>Lines 112 to 118: the arguments of VirtualMachineInit\<close>

text \<open>
  \<^verbatim>\<open>memory_cfg[device] if device in memory_cfg else default_alloc_type\<close>.
\<close>

definition alloc_type :: "(pyobj \<times> pyobj) list \<Rightarrow> int \<Rightarrow> pyobj \<Rightarrow> pyobj" where
  "alloc_type cfg default_alloc_type device =
     (case map_of cfg device of
        Some v \<Rightarrow> v
      | None \<Rightarrow> PyInt default_alloc_type)"

text \<open>The loop of line 113, with \<^verbatim>\<open>init_args\<close> as the accumulator.\<close>

fun build_init_args ::
  "tvm \<Rightarrow> (pyobj \<times> pyobj) list \<Rightarrow> int \<Rightarrow> pyobj list \<Rightarrow> pyobj list \<Rightarrow> error + pyobj list" where
  "build_init_args c cfg d [] init_args = Inr init_args"
| "build_init_args c cfg d (device # rest) init_args =
     (case masked_type c device of
        Inl e \<Rightarrow> Inl e
      | Inr t \<Rightarrow>
          (case device_id device of
             Inl e \<Rightarrow> Inl e
           | Inr i \<Rightarrow>
               build_init_args c cfg d rest
                 (init_args @ [PyInt t, PyInt i, alloc_type cfg d device])))"

subsection \<open>The method\<close>

text \<open>
  Lines 86 to 97 together: the store after them, and the exception raised or the value
  of \<^verbatim>\<open>devs\<close>. When \<^verbatim>\<open>any\<close> is true, nothing is appended.
\<close>

definition prepare_devs :: "tvm \<Rightarrow> heap \<Rightarrow> addr \<Rightarrow> heap \<times> (error + devs_ref)" where
  "prepare_devs c h dev =
     (case normalize_dev h dev of
        Inl e \<Rightarrow> (h, Inl e)
      | Inr devs \<Rightarrow>
          (case any_cpu c (elems h devs) of
             Inl e \<Rightarrow> (h, Inl e)
           | Inr found \<Rightarrow>
               if found then (h, Inr devs)
               else (case append_cpu c h devs of
                       Inl e \<Rightarrow> (h, Inl e)
                     | Inr (h1, devs1) \<Rightarrow> (h1, Inr devs1))))"

text \<open>
  The result is the store after the call, and either the exception raised or the
  argument list with which \<^verbatim>\<open>_ffi_api.VirtualMachineInit(self.module, *init_args)\<close>
  is called. An exception means that \<^verbatim>\<open>VirtualMachineInit\<close> is not reached.
  \<^verbatim>\<open>memory_cfg\<close> is inspected after the append, in the store as it is then.
\<close>

definition setup_device :: "tvm \<Rightarrow> heap \<Rightarrow> addr \<Rightarrow> addr \<Rightarrow> heap \<times> (error + pyobj list)" where
  "setup_device c h dev memory_cfg =
     (case prepare_devs c h dev of
        (h1, Inl e) \<Rightarrow> (h1, Inl e)
      | (h1, Inr devs) \<Rightarrow>
          (case resolve_memory_cfg (h1 memory_cfg) of
             Inl e \<Rightarrow> (h1, Inl e)
           | Inr (default_alloc_type, cfg) \<Rightarrow>
               (case build_init_args c cfg default_alloc_type (elems h1 devs) [] of
                  Inl e \<Rightarrow> (h1, Inl e)
                | Inr init_args \<Rightarrow> (h1, Inr init_args))))"

subsection \<open>Vocabulary of the statements\<close>

text \<open>The constants of the TVM runtime, for concrete runs: mask 128, CPU device (1, 0).\<close>

definition tvm0 :: tvm where
  "tvm0 = \<lparr>RPC_SESS_MASK = 128, cpu_device_type = 1, cpu_device_id = 0\<rparr>"

definition is_device :: "pyobj \<Rightarrow> bool" where
  "is_device v = (case v of Device t i \<Rightarrow> True | _ \<Rightarrow> False)"

text \<open>The device sequence the caller supplied: a single device counts as one element.\<close>

definition given_devices :: "pyobj \<Rightarrow> pyobj list" where
  "given_devices v =
     (case v of
        Device t i \<Rightarrow> [Device t i]
      | PyList xs \<Rightarrow> xs
      | PyTuple xs \<Rightarrow> xs
      | _ \<Rightarrow> [])"

text \<open>A device whose type, reduced modulo the session mask, is the CPU's.\<close>

definition cpu_class :: "tvm \<Rightarrow> pyobj \<Rightarrow> bool" where
  "cpu_class c d = (masked_type c d = Inr (cpu_device_type c))"

text \<open>
  The device arguments on which lines 86 to 97 complete with every element a device:
  a device, a list of devices, or a tuple of devices one of which is of CPU class.
\<close>

definition device_spec_ok :: "tvm \<Rightarrow> pyobj \<Rightarrow> bool" where
  "device_spec_ok c v =
     (case v of
        Device t i \<Rightarrow> True
      | PyList xs \<Rightarrow> list_all is_device xs
      | PyTuple xs \<Rightarrow> list_all is_device xs \<and> list_ex (cpu_class c) xs
      | _ \<Rightarrow> False)"

text \<open>The devices that are bound: the caller's, then the CPU when none of them is one.\<close>

definition bound_devices :: "tvm \<Rightarrow> pyobj list \<Rightarrow> pyobj list" where
  "bound_devices c ds = (if list_ex (cpu_class c) ds then ds else ds @ [tvm_cpu c])"

text \<open>The three values that one pass of the loop of line 113 appends for a device.\<close>

definition init_triple :: "tvm \<Rightarrow> (pyobj \<times> pyobj) list \<Rightarrow> int \<Rightarrow> pyobj \<Rightarrow> pyobj list" where
  "init_triple c cfg d device =
     (case device of
        Device t i \<Rightarrow> [PyInt (t mod RPC_SESS_MASK c), PyInt i, alloc_type cfg d device]
      | _ \<Rightarrow> [])"

text \<open>The store after lines 86 to 97: only a list with no CPU device in it changes.\<close>

definition store_after :: "tvm \<Rightarrow> heap \<Rightarrow> addr \<Rightarrow> heap" where
  "store_after c h dev =
     (case h dev of
        PyList xs \<Rightarrow>
          if any_cpu c xs = Inr False then h(dev := PyList (xs @ [tvm_cpu c])) else h
      | _ \<Rightarrow> h)"




text \<open>
  A store for concrete runs: the device argument at address 0, the configuration at
  address 1, \<^verbatim>\<open>None\<close> everywhere else.
\<close>

definition heap_of :: "pyobj \<Rightarrow> pyobj \<Rightarrow> heap" where
  "heap_of d m = (\<lambda>a. if a = 0 then d else if a = 1 then m else PyNone)"

section \<open>The executable and its binary codec\<close>

text \<open>
  \<^verbatim>\<open>Executable.save_to_file\<close> and \<^verbatim>\<open>load_exec_from_file\<close> only forward to the native
  \<^verbatim>\<open>ExecutableSaveToFile\<close> and \<^verbatim>\<open>ExecutableLoadFromFile\<close>, which the Python module
  does not contain. They are modelled from the specification (sections 3, 4.1 and 6).
  What the specification leaves open (how an integer, an instruction, a constant and a
  function table entry are laid out in bytes, and which operands of an instruction are
  index references) is a parameter of the model.
\<close>

type_synonym byte = "8 word"

text \<open>
  Modelled from the spec: an instruction record of the native executable, which the
  Python module only holds by handle: an opcode with register operands and immediate
  operands.
\<close>

record instruction =
  opcode :: nat
  register_operands :: "nat list"
  immediate_operands :: "int list"

text \<open>
  Modelled from the spec: an entry of the native function table: the function name
  with its entry instruction offset, register frame size and parameter count.
\<close>

type_synonym function_entry = "string \<times> nat \<times> nat \<times> nat"

text \<open>
  Modelled from the spec: the native executable (section 3): its instructions, its
  constants, whose representation the specification leaves open, and its function
  table.
\<close>

record 'c executable =
  instructions :: "instruction list"
  constants :: "'c list"
  function_table :: "function_entry list"

text \<open>
  Modelled from the spec: the errors of the native codec and of persistence
  (section 7).
\<close>

datatype codec_error = MalformedExecutable | UnsupportedVersion | IOError

text \<open>
  Modelled from the spec: the byte layout of the native codec, as far as the
  specification does not fix it. The encoding version written in the header; a writer and a reader for an integer, an
  instruction record, a constant record and a function table record (a reader returns
  the value and the rest of the input); and the constant indices, function indices and
  jump targets that an instruction refers to.
\<close>

record 'c layout =
  format_version :: nat
  put_nat :: "nat \<Rightarrow> byte list"
  get_nat :: "byte list \<Rightarrow> (nat \<times> byte list) option"
  put_instruction :: "instruction \<Rightarrow> byte list"
  get_instruction :: "byte list \<Rightarrow> (instruction \<times> byte list) option"
  put_constant :: "'c \<Rightarrow> byte list"
  get_constant :: "byte list \<Rightarrow> ('c \<times> byte list) option"
  put_function :: "function_entry \<Rightarrow> byte list"
  get_function :: "byte list \<Rightarrow> (function_entry \<times> byte list) option"
  constant_refs :: "instruction \<Rightarrow> nat list"
  function_refs :: "instruction \<Rightarrow> nat list"
  jump_targets :: "instruction \<Rightarrow> nat list"

text \<open>
  Modelled from the spec: the index check of the native loader, the invariant of
  section 3: every index reference is in bounds (constants, function indices, jump
  targets, function entry offsets).
\<close>

definition refs_in_bounds :: "'c layout \<Rightarrow> 'c executable \<Rightarrow> bool" where
  "refs_in_bounds L e =
     (list_all (\<lambda>i. list_all (\<lambda>k. k < length (constants e)) (constant_refs L i) \<and>
                    list_all (\<lambda>k. k < length (function_table e)) (function_refs L i) \<and>
                    list_all (\<lambda>k. k < length (instructions e)) (jump_targets L i))
        (instructions e) \<and>
      list_all (\<lambda>(name, entry, frame, params). entry < length (instructions e)) (function_table e))"

text \<open>
  Modelled from the spec: a valid executable of the native core: its index references
  are in bounds and its function names are unique (section 3).
\<close>

definition valid_executable :: "'c layout \<Rightarrow> 'c executable \<Rightarrow> bool" where
  "valid_executable L e = (refs_in_bounds L e \<and> distinct (map fst (function_table e)))"

text \<open>
  Modelled from the spec: \<^verbatim>\<open>encode\<close>, the writer inside the native
  \<^verbatim>\<open>ExecutableSaveToFile\<close>. The stream of section 6: the header (version, instruction
  count, constant count), then the instruction records, the constant records and the
  function table records.
\<close>

definition encode :: "'c layout \<Rightarrow> 'c executable \<Rightarrow> byte list" where
  "encode L e =
     put_nat L (format_version L) @ put_nat L (length (instructions e)) @
     put_nat L (length (constants e)) @
     concat (map (put_instruction L) (instructions e)) @
     concat (map (put_constant L) (constants e)) @
     concat (map (put_function L) (function_table e))"

text \<open>
  Modelled from the spec: the native reader of a counted run of records, as many as
  the header announced.
\<close>

fun get_records :: "(byte list \<Rightarrow> ('a \<times> byte list) option) \<Rightarrow> nat \<Rightarrow> byte list \<Rightarrow>
    ('a list \<times> byte list) option" where
  "get_records g 0 bs = Some ([], bs)"
| "get_records g (Suc n) bs =
     (case g bs of
        None \<Rightarrow> None
      | Some (x, bs') \<Rightarrow>
          (case get_records g n bs' of
             None \<Rightarrow> None
           | Some (xs, bs'') \<Rightarrow> Some (x # xs, bs'')))"

text \<open>
  Modelled from the spec: the native reader of the function table records, which run
  to the end of the input (the header has no count for them). A record that takes no
  input is malformed.
\<close>

function get_all_records :: "(byte list \<Rightarrow> ('a \<times> byte list) option) \<Rightarrow> byte list \<Rightarrow>
    'a list option" where
  "get_all_records g bs =
     (if bs = [] then Some []
      else (case g bs of
              None \<Rightarrow> None
            | Some (x, bs') \<Rightarrow>
                if length bs' < length bs
                then (case get_all_records g bs' of None \<Rightarrow> None | Some xs \<Rightarrow> Some (x # xs))
                else None))"
  by pat_completeness auto
termination
  by (relation "measure (\<lambda>(g, bs). length bs)") auto

declare get_all_records.simps [simp del]

text \<open>
  Modelled from the spec: \<^verbatim>\<open>decode\<close>, the reader inside the native
  \<^verbatim>\<open>ExecutableLoadFromFile\<close>. An unknown version is \<^verbatim>\<open>UnsupportedVersion\<close>; input
  that cannot be read, or an index reference out of bounds, is \<^verbatim>\<open>MalformedExecutable\<close>.
\<close>

definition decode :: "'c layout \<Rightarrow> byte list \<Rightarrow> codec_error + 'c executable" where
  "decode L bs =
     (case get_nat L bs of
        None \<Rightarrow> Inl MalformedExecutable
      | Some (v, bs1) \<Rightarrow>
          if v \<noteq> format_version L then Inl UnsupportedVersion
          else
            (case get_nat L bs1 of
               None \<Rightarrow> Inl MalformedExecutable
             | Some (n_instr, bs2) \<Rightarrow>
                 (case get_nat L bs2 of
                    None \<Rightarrow> Inl MalformedExecutable
                  | Some (n_const, bs3) \<Rightarrow>
                      (case get_records (get_instruction L) n_instr bs3 of
                         None \<Rightarrow> Inl MalformedExecutable
                       | Some (ins, bs4) \<Rightarrow>
                           (case get_records (get_constant L) n_const bs4 of
                              None \<Rightarrow> Inl MalformedExecutable
                            | Some (cs, bs5) \<Rightarrow>
                                (case get_all_records (get_function L) bs5 of
                                   None \<Rightarrow> Inl MalformedExecutable
                                 | Some fs \<Rightarrow>
                                     if refs_in_bounds L
                                          \<lparr>instructions = ins, constants = cs, function_table = fs\<rparr>
                                     then Inr \<lparr>instructions = ins, constants = cs, function_table = fs\<rparr>
                                     else Inl MalformedExecutable))))))"

text \<open>
  What is asked of a layout: a writer and a reader fit together when the reader gives
  back what was written and leaves the input that follows it.
\<close>

definition lossless :: "('a \<Rightarrow> byte list) \<Rightarrow> (byte list \<Rightarrow> ('a \<times> byte list) option) \<Rightarrow> bool" where
  "lossless p g = (\<forall>x rest. g (p x @ rest) = Some (x, rest))"

definition lossless_layout :: "'c layout \<Rightarrow> bool" where
  "lossless_layout L =
     (lossless (put_nat L) (get_nat L) \<and>
      lossless (put_instruction L) (get_instruction L) \<and>
      lossless (put_constant L) (get_constant L) \<and>
      lossless (put_function L) (get_function L))"

text \<open>A file system maps a file name to the bytes of the file.\<close>

type_synonym files = "string \<rightharpoonup> byte list"

text \<open>
  Modelled from the spec: the native \<^verbatim>\<open>ExecutableSaveToFile\<close>: persistence wraps the
  codec (section 6), so the file holds the encoding.
\<close>

definition ExecutableSaveToFile :: "'c layout \<Rightarrow> files \<Rightarrow> 'c executable \<Rightarrow> string \<Rightarrow> files" where
  "ExecutableSaveToFile L fs e file_name = fs(file_name \<mapsto> encode L e)"

text \<open>
  Modelled from the spec: the native \<^verbatim>\<open>ExecutableLoadFromFile\<close>: the decoding of the
  file's bytes; a file that is not there is an \<^verbatim>\<open>IOError\<close>.
\<close>

definition ExecutableLoadFromFile ::
  "'c layout \<Rightarrow> files \<Rightarrow> string \<Rightarrow> codec_error + 'c executable" where
  "ExecutableLoadFromFile L fs file_name =
     (case fs file_name of
        None \<Rightarrow> Inl IOError
      | Some bs \<Rightarrow> decode L bs)"

text \<open>
  Lines 35 to 37 and 47 to 48 of the module: both functions pass their arguments on.
\<close>

definition save_to_file :: "'c layout \<Rightarrow> files \<Rightarrow> 'c executable \<Rightarrow> string \<Rightarrow> files" where
  "save_to_file L fs self file_name = ExecutableSaveToFile L fs self file_name"

definition load_exec_from_file ::
  "'c layout \<Rightarrow> files \<Rightarrow> string \<Rightarrow> codec_error + 'c executable" where
  "load_exec_from_file L fs file_name = ExecutableLoadFromFile L fs file_name"

text \<open>
  One layout that fits together, for a concrete run; nothing in the specification
  prescribes it. An integer is written in unary, a list with its length first.
\<close>

definition put_unary :: "nat \<Rightarrow> byte list" where
  "put_unary n = replicate n 1 @ [0]"

fun get_unary :: "byte list \<Rightarrow> (nat \<times> byte list) option" where
  "get_unary [] = None"
| "get_unary (b # bs) =
     (if b = 0 then Some (0, bs)
      else (case get_unary bs of None \<Rightarrow> None | Some (n, r) \<Rightarrow> Some (Suc n, r)))"

definition put_int :: "int \<Rightarrow> byte list" where
  "put_int i = put_unary (if i < 0 then 1 else 0) @ put_unary (nat \<bar>i\<bar>)"

definition get_int :: "byte list \<Rightarrow> (int \<times> byte list) option" where
  "get_int bs =
     (case get_unary bs of
        None \<Rightarrow> None
      | Some (s, r) \<Rightarrow>
          (case get_unary r of
             None \<Rightarrow> None
           | Some (m, r') \<Rightarrow> Some (if s = 0 then int m else - int m, r')))"

definition put_char :: "char \<Rightarrow> byte list" where
  "put_char ch = put_unary (of_char ch)"

definition get_char :: "byte list \<Rightarrow> (char \<times> byte list) option" where
  "get_char bs = (case get_unary bs of None \<Rightarrow> None | Some (n, r) \<Rightarrow> Some (char_of n, r))"

definition put_list :: "('a \<Rightarrow> byte list) \<Rightarrow> 'a list \<Rightarrow> byte list" where
  "put_list p xs = put_unary (length xs) @ concat (map p xs)"

definition get_list ::
  "(byte list \<Rightarrow> ('a \<times> byte list) option) \<Rightarrow> byte list \<Rightarrow> ('a list \<times> byte list) option" where
  "get_list g bs = (case get_unary bs of None \<Rightarrow> None | Some (n, r) \<Rightarrow> get_records g n r)"

definition put_instr :: "instruction \<Rightarrow> byte list" where
  "put_instr i =
     put_unary (opcode i) @ put_list put_unary (register_operands i) @
     put_list put_int (immediate_operands i)"

definition get_instr :: "byte list \<Rightarrow> (instruction \<times> byte list) option" where
  "get_instr bs =
     (case get_unary bs of
        None \<Rightarrow> None
      | Some (op, r1) \<Rightarrow>
          (case get_list get_unary r1 of
             None \<Rightarrow> None
           | Some (rs, r2) \<Rightarrow>
               (case get_list get_int r2 of
                  None \<Rightarrow> None
                | Some (ims, r3) \<Rightarrow>
                    Some (\<lparr>opcode = op, register_operands = rs, immediate_operands = ims\<rparr>,
                          r3))))"

definition put_entry :: "function_entry \<Rightarrow> byte list" where
  "put_entry f =
     (case f of (name, entry, frame, params) \<Rightarrow>
        put_list put_char name @ put_unary entry @ put_unary frame @ put_unary params)"

definition get_entry :: "byte list \<Rightarrow> (function_entry \<times> byte list) option" where
  "get_entry bs =
     (case get_list get_char bs of
        None \<Rightarrow> None
      | Some (name, r1) \<Rightarrow>
          (case get_unary r1 of
             None \<Rightarrow> None
           | Some (entry, r2) \<Rightarrow>
               (case get_unary r2 of
                  None \<Rightarrow> None
                | Some (frame, r3) \<Rightarrow>
                    (case get_unary r3 of
                       None \<Rightarrow> None
                     | Some (params, r4) \<Rightarrow> Some ((name, entry, frame, params), r4)))))"

definition example_layout :: "int layout" where
  "example_layout =
     \<lparr>format_version = 1,
      put_nat = put_unary, get_nat = get_unary,
      put_instruction = put_instr, get_instruction = get_instr,
      put_constant = put_int, get_constant = get_int,
      put_function = put_entry, get_function = get_entry,
      constant_refs = (\<lambda>i. if opcode i = 1 then map nat (immediate_operands i) else []),
      function_refs = (\<lambda>i. if opcode i = 2 then map nat (immediate_operands i) else []),
      jump_targets = (\<lambda>i. if opcode i = 3 then map nat (immediate_operands i) else [])\<rparr>"

definition example_executable :: "int executable" where
  "example_executable =
     \<lparr>instructions = [\<lparr>opcode = 1, register_operands = [0], immediate_operands = [0]\<rparr>],
      constants = [42],
      function_table = [(''main'', 0, 1, 0)]\<rparr>"

section \<open>Auxiliary facts\<close>

subsection \<open>Devices, the scan and the loop\<close>

lemma masked_type_Device:
  "RPC_SESS_MASK c \<noteq> 0 \<Longrightarrow> masked_type c (Device t i) = Inr (t mod RPC_SESS_MASK c)"
  by (simp add: masked_type_def py_mod_def)

lemma is_deviceE: "is_device v \<Longrightarrow> \<exists>t i. v = Device t i"
  by (cases v) (simp_all add: is_device_def)

lemma any_cpu_devices:
  "RPC_SESS_MASK c \<noteq> 0 \<Longrightarrow> list_all is_device ds \<Longrightarrow> any_cpu c ds = Inr (list_ex (cpu_class c) ds)"
proof (induction ds)
  case Nil
  then show ?case by simp
next
  case (Cons d ds)
  from Cons.prems have "is_device d" by simp
  then obtain t i where d: "d = Device t i" using is_deviceE by blast
  with Cons show ?case
    by (simp add: masked_type_Device cpu_class_def)
qed

lemma build_init_args_devices:
  "RPC_SESS_MASK c \<noteq> 0 \<Longrightarrow> list_all is_device ds \<Longrightarrow>
   build_init_args c cfg d ds acc = Inr (acc @ concat (map (init_triple c cfg d) ds))"
proof (induction ds arbitrary: acc)
  case Nil
  then show ?case by simp
next
  case (Cons x ds)
  from Cons.prems have "is_device x" by simp
  then obtain t i where x: "x = Device t i" using is_deviceE by blast
  with Cons show ?case
    by (simp add: masked_type_Device init_triple_def)
qed

lemma length_triples:
  "list_all is_device ds \<Longrightarrow> length (concat (map (init_triple c cfg d) ds)) = 3 * length ds"
proof (induction ds)
  case Nil
  then show ?case by simp
next
  case (Cons x ds)
  from Cons.prems have "is_device x" by simp
  then obtain t i where x: "x = Device t i" using is_deviceE by blast
  with Cons show ?case by (simp add: init_triple_def)
qed

lemma nth_triples:
  "list_all is_device ds \<Longrightarrow> k < length ds \<Longrightarrow> ds ! k = Device t i \<Longrightarrow>
   concat (map (init_triple c cfg d) ds) ! (3 * k) = PyInt (t mod RPC_SESS_MASK c) \<and>
   concat (map (init_triple c cfg d) ds) ! (3 * k + 1) = PyInt i \<and>
   concat (map (init_triple c cfg d) ds) ! (3 * k + 2) = alloc_type cfg d (Device t i)"
proof (induction ds arbitrary: k)
  case Nil
  then show ?case by simp
next
  case (Cons x ds)
  from Cons.prems have "is_device x" by simp
  then obtain t' i' where x: "x = Device t' i'" using is_deviceE by blast
  show ?case
  proof (cases k)
    case 0
    with Cons.prems x show ?thesis by (simp add: init_triple_def)
  next
    case (Suc j)
    with Cons.prems have j: "j < length ds" "ds ! j = Device t i" "list_all is_device ds" by simp_all
    have e: "3 * k = Suc (Suc (Suc (3 * j)))" using Suc by simp
    show ?thesis
      using Cons.IH[OF j(3) j(1) j(2)]
      by (simp add: e x init_triple_def)
  qed
qed

subsection \<open>Lines 86 to 97 as a whole\<close>

lemma prepare_devs_store: "fst (prepare_devs c h dev) = store_after c h dev"
  by (cases "h dev")
     (auto simp: prepare_devs_def normalize_dev_def store_after_def
           split: sum.splits bool.splits)

lemma store_after_other: "a \<noteq> dev \<Longrightarrow> store_after c h dev a = h a"
  by (simp add: store_after_def split: pyobj.splits)

lemma prepare_devs_ok:
  assumes "RPC_SESS_MASK c \<noteq> 0" "device_spec_ok c (h dev)"
  shows "\<exists>devs. prepare_devs c h dev = (store_after c h dev, Inr devs) \<and>
           elems (store_after c h dev) devs = bound_devices c (given_devices (h dev))"
proof (cases "h dev")
  case (Device t i)
  with assms show ?thesis
    by (simp add: prepare_devs_def normalize_dev_def store_after_def given_devices_def
        bound_devices_def masked_type_Device cpu_class_def)
next
  case (PyList xs)
  with assms have a: "any_cpu c xs = Inr (list_ex (cpu_class c) xs)"
    by (simp add: device_spec_ok_def any_cpu_devices)
  with PyList show ?thesis
    by (simp add: prepare_devs_def normalize_dev_def store_after_def given_devices_def
        bound_devices_def)
next
  case (PyTuple xs)
  with assms have a: "any_cpu c xs = Inr True"
    by (simp add: device_spec_ok_def any_cpu_devices)
  with PyTuple assms show ?thesis
    by (simp add: prepare_devs_def normalize_dev_def store_after_def given_devices_def
        bound_devices_def device_spec_ok_def)
qed (use assms in \<open>simp_all add: device_spec_ok_def\<close>)

subsection \<open>A call that reaches VirtualMachineInit\<close>

lemma resolve_not_sequence:
  "resolve_memory_cfg v = Inr r \<Longrightarrow> (\<forall>xs. v \<noteq> PyList xs)"
  by (auto simp: resolve_memory_cfg_def)

lemma store_after_cfg:
  assumes "resolve_memory_cfg (h memory_cfg) = Inr r"
  shows "store_after c h dev memory_cfg = h memory_cfg"
proof (cases "memory_cfg = dev")
  case True
  with assms show ?thesis
    by (auto simp: store_after_def resolve_memory_cfg_def split: pyobj.splits)
next
  case False
  then show ?thesis by (simp add: store_after_other)
qed

lemma device_spec_ok_bound:
  "device_spec_ok c v \<Longrightarrow> list_all is_device (bound_devices c (given_devices v))"
  by (auto simp: device_spec_ok_def bound_devices_def given_devices_def is_device_def
        tvm_cpu_def split: pyobj.splits)

lemma setup_device_ok:
  assumes "RPC_SESS_MASK c \<noteq> 0" "device_spec_ok c (h dev)"
    and "resolve_memory_cfg (h memory_cfg) = Inr (d, cfg)"
  shows "setup_device c h dev memory_cfg =
           (store_after c h dev,
            Inr (concat (map (init_triple c cfg d) (bound_devices c (given_devices (h dev))))))"
proof -
  from prepare_devs_ok[of c h dev] assms(1,2) obtain devs where
    p: "prepare_devs c h dev = (store_after c h dev, Inr devs)"
    and e: "elems (store_after c h dev) devs = bound_devices c (given_devices (h dev))"
    by blast
  have dv: "list_all is_device (bound_devices c (given_devices (h dev)))"
    using assms(2) by (rule device_spec_ok_bound)
  have sc: "store_after c h dev memory_cfg = h memory_cfg"
    using assms(3) by (rule store_after_cfg[where h = h and memory_cfg = memory_cfg])
  show ?thesis
    by (simp add: setup_device_def p sc assms(3) e
        build_init_args_devices[OF assms(1) dv])
qed

subsection \<open>What a call that reached VirtualMachineInit was given\<close>

lemma masked_type_InrD:
  "masked_type c x = Inr t \<Longrightarrow> is_device x \<and> RPC_SESS_MASK c \<noteq> 0"
  by (cases x) (auto simp: masked_type_def py_mod_def is_device_def split: if_splits)

lemma build_init_args_InrD:
  "build_init_args c cfg d ds acc = Inr r \<Longrightarrow>
   list_all is_device ds \<and> (ds \<noteq> [] \<longrightarrow> RPC_SESS_MASK c \<noteq> 0)"
proof (induction ds arbitrary: acc)
  case Nil
  then show ?case by simp
next
  case (Cons x ds)
  then show ?case
    by (auto split: sum.splits dest: masked_type_InrD)
qed

lemma any_cpu_True_nonempty: "any_cpu c xs = Inr True \<Longrightarrow> xs \<noteq> []"
  by auto

lemma resolve_store_after:
  assumes "resolve_memory_cfg (store_after c h dev a) = Inr r"
  shows "store_after c h dev a = h a"
proof (cases "a = dev")
  case True
  with assms show ?thesis
    by (auto simp: store_after_def resolve_memory_cfg_def split: pyobj.splits if_splits)
next
  case False
  then show ?thesis by (simp add: store_after_other)
qed

lemma prepare_devs_InrD:
  assumes "prepare_devs c h dev = (h1, Inr devs)"
  shows "h1 = store_after c h dev \<and>
         elems h1 devs = (if any_cpu c (given_devices (h dev)) = Inr True
                          then given_devices (h dev) else given_devices (h dev) @ [tvm_cpu c]) \<and>
         (case h dev of Device t i \<Rightarrow> True | PyList xs \<Rightarrow> True
            | PyTuple xs \<Rightarrow> any_cpu c xs = Inr True | _ \<Rightarrow> False)"
  using assms
  by (cases "h dev")
     (auto simp: prepare_devs_def normalize_dev_def store_after_def given_devices_def
           split: sum.splits bool.splits if_splits pyobj.splits)

lemma setup_device_InrD:
  assumes "setup_device c h dev memory_cfg = (h', Inr args)"
  shows "RPC_SESS_MASK c \<noteq> 0 \<and> device_spec_ok c (h dev) \<and>
         (\<exists>d cfg. resolve_memory_cfg (h memory_cfg) = Inr (d, cfg))"
proof -
  from assms obtain h1 devs d cfg where
    p: "prepare_devs c h dev = (h1, Inr devs)"
    and r: "resolve_memory_cfg (h1 memory_cfg) = Inr (d, cfg)"
    and b: "build_init_args c cfg d (elems h1 devs) [] = Inr args"
    by (auto simp: setup_device_def split: prod.splits sum.splits)
  note P = prepare_devs_InrD[OF p]
  from P have ne: "elems h1 devs \<noteq> []"
    by (auto simp: given_devices_def split: if_splits pyobj.splits)
  from build_init_args_InrD[OF b] ne have
    dv: "list_all is_device (elems h1 devs)" and m: "RPC_SESS_MASK c \<noteq> 0" by simp_all
  from P dv have gd: "list_all is_device (given_devices (h dev))"
    by (auto split: if_splits)
  have ok: "device_spec_ok c (h dev)"
  proof (cases "h dev")
    case (PyTuple xs)
    with P gd have "any_cpu c xs = Inr True" "list_all is_device xs"
      by (simp_all add: given_devices_def)
    with any_cpu_devices[OF m, of xs] PyTuple show ?thesis
      by (simp add: device_spec_ok_def)
  qed (use P gd in \<open>simp_all add: device_spec_ok_def given_devices_def\<close>)
  from P r have "resolve_memory_cfg (store_after c h dev memory_cfg) = Inr (d, cfg)" by simp
  from resolve_store_after[OF this] this have "resolve_memory_cfg (h memory_cfg) = Inr (d, cfg)"
    by simp
  with m ok show ?thesis by blast
qed

lemma setup_device_Inr:
  assumes "setup_device c h dev memory_cfg = (h', Inr args)"
  shows "\<exists>d cfg. resolve_memory_cfg (h memory_cfg) = Inr (d, cfg) \<and>
           h' = store_after c h dev \<and>
           args = concat (map (init_triple c cfg d) (bound_devices c (given_devices (h dev))))"
proof -
  from setup_device_InrD[OF assms] obtain d cfg where
    m: "RPC_SESS_MASK c \<noteq> 0" and ok: "device_spec_ok c (h dev)"
    and r: "resolve_memory_cfg (h memory_cfg) = Inr (d, cfg)" by blast
  from setup_device_ok[of c h dev memory_cfg d cfg] m ok r assms r show ?thesis by auto
qed

lemma store_after_not_list:
  "(\<And>xs. h a \<noteq> PyList xs) \<Longrightarrow> store_after c h dev a = h a"
  by (cases "a = dev") (auto simp: store_after_def store_after_other split: pyobj.splits)

lemma alloc_type_Nil: "alloc_type [] d x = PyInt d"
  by (simp add: alloc_type_def)

lemma setup_device_args:
  assumes "RPC_SESS_MASK c \<noteq> 0" "device_spec_ok c (h dev)"
    and "resolve_memory_cfg (h memory_cfg) = Inr (d, cfg)"
    and "ds = bound_devices c (given_devices (h dev))"
  shows "\<exists>a. snd (setup_device c h dev memory_cfg) = Inr a \<and> length a = 3 * length ds \<and>
           (\<forall>k<length ds. a ! (3 * k + 2) = alloc_type cfg d (ds ! k))"
proof -
  let ?a = "concat (map (init_triple c cfg d) ds)"
  have dv: "list_all is_device ds"
    using assms(2,4) by (simp add: device_spec_ok_bound)
  have s: "snd (setup_device c h dev memory_cfg) = Inr ?a"
    using setup_device_ok[of c h dev memory_cfg d cfg] assms by simp
  have n: "?a ! (3 * k + 2) = alloc_type cfg d (ds ! k)" if k: "k < length ds" for k
  proof -
    from dv k have "is_device (ds ! k)" by (simp add: list_all_length)
    then obtain t i where e: "ds ! k = Device t i" using is_deviceE by blast
    from nth_triples[OF dv k e] e show ?thesis by simp
  qed
  from s n length_triples[OF dv] show ?thesis by blast
qed

lemma setup_device_triples:
  assumes "setup_device c h dev memory_cfg = (h', Inr a)"
    and "ds = bound_devices c (given_devices (h dev))"
  shows "length a = 3 * length ds \<and>
         (\<forall>k<length ds. \<exists>t i. ds ! k = Device t i \<and>
            a ! (3 * k) = PyInt (t mod RPC_SESS_MASK c) \<and> a ! (3 * k + 1) = PyInt i)"
proof -
  from setup_device_Inr[OF assms(1)] obtain d cfg where
    a: "a = concat (map (init_triple c cfg d) ds)" using assms(2) by blast
  from setup_device_InrD[OF assms(1)] assms(2) have dv: "list_all is_device ds"
    by (simp add: device_spec_ok_bound)
  have "\<exists>t i. ds ! k = Device t i \<and>
            a ! (3 * k) = PyInt (t mod RPC_SESS_MASK c) \<and> a ! (3 * k + 1) = PyInt i"
    if k: "k < length ds" for k
  proof -
    from dv k have "is_device (ds ! k)" by (simp add: list_all_length)
    then obtain t i where e: "ds ! k = Device t i" using is_deviceE by blast
    from nth_triples[OF dv k e] e a show ?thesis by simp
  qed
  with length_triples[OF dv] a show ?thesis by simp
qed

lemma bound_devices_cpu:
  "list_ex (cpu_class c) ds \<Longrightarrow> bound_devices c ds = ds"
  by (simp add: bound_devices_def)

lemma store_after_cpu:
  assumes "RPC_SESS_MASK c \<noteq> 0" "device_spec_ok c (h dev)"
    "list_ex (cpu_class c) (given_devices (h dev))"
  shows "store_after c h dev = h"
proof (cases "h dev")
  case (PyList xs)
  with assms have "any_cpu c xs = Inr True"
    by (simp add: device_spec_ok_def given_devices_def any_cpu_devices)
  with PyList show ?thesis by (simp add: store_after_def)
qed (simp_all add: store_after_def)

lemma setup_device_bad_string:
  assumes "h memory_cfg = PyStr s" "s \<noteq> ''naive''" "s \<noteq> ''pooled''"
  shows "\<exists>e. snd (setup_device c h dev memory_cfg) = Inl e"
proof -
  have sa: "store_after c h dev memory_cfg = PyStr s"
    using assms(1) by (simp add: store_after_not_list)
  have r: "resolve_memory_cfg (PyStr s) = Inl AssertionError"
    using assms(2,3) by (simp add: resolve_memory_cfg_def)
  obtain h1 res where p: "prepare_devs c h dev = (h1, res)" by (cases "prepare_devs c h dev")
  with prepare_devs_store[of c h dev] have h1: "h1 = store_after c h dev" by simp
  show ?thesis
    by (cases res) (simp_all add: setup_device_def p h1 sa r)
qed

lemma cpu_appended_to_list:
  assumes "RPC_SESS_MASK c \<noteq> 0" and "h dev = PyList ds" and "list_all is_device ds"
    and "\<not> list_ex (cpu_class c) ds"
    and "resolve_memory_cfg (h memory_cfg) = Inr (d, cfg)"
  shows "setup_device c h dev memory_cfg =
           (h(dev := PyList (ds @ [tvm_cpu c])),
            Inr (concat (map (init_triple c cfg d) (ds @ [tvm_cpu c]))))"
proof -
  from assms(2,3) have ok: "device_spec_ok c (h dev)" by (simp add: device_spec_ok_def)
  from assms(1,3,4) have "any_cpu c ds = Inr False" by (simp add: any_cpu_devices)
  with assms(2) have sa: "store_after c h dev = h(dev := PyList (ds @ [tvm_cpu c]))"
    by (simp add: store_after_def)
  from assms(2,4) have bd: "bound_devices c (given_devices (h dev)) = ds @ [tvm_cpu c]"
    by (simp add: bound_devices_def given_devices_def)
  from setup_device_ok[where c = c and h = h and dev = dev, OF assms(1) ok assms(5)] sa bd
  show ?thesis by simp
qed

subsection \<open>The codec\<close>

lemma get_records_concat:
  assumes "lossless p g"
  shows "get_records g (length xs) (concat (map p xs) @ rest) = Some (xs, rest)"
  using assms by (induction xs) (simp_all add: lossless_def)

lemma lossless_nonempty:
  assumes "lossless p g" "x \<noteq> y"
  shows "p x \<noteq> []"
proof
  assume e: "p x = []"
  from assms(1) have "g (p x @ p y) = Some (x, p y)" by (simp add: lossless_def)
  moreover from assms(1)[unfolded lossless_def, rule_format, of y "[]"]
  have "g (p y) = Some (y, [])" by simp
  ultimately show False using e assms(2) by simp
qed

lemma get_all_records_concat:
  assumes "lossless p g" "\<And>x. p x \<noteq> []"
  shows "get_all_records g (concat (map p xs)) = Some xs"
proof (induction xs)
  case Nil
  then show ?case by (simp add: get_all_records.simps[of g "[]"])
next
  case (Cons x xs)
  from assms(1) have g: "g (p x @ concat (map p xs)) = Some (x, concat (map p xs))"
    by (simp add: lossless_def)
  from assms(2) have n: "p x \<noteq> []" .
  show ?case
    using Cons.IH n by (simp add: g get_all_records.simps[of g "p x @ concat (map p xs)"])
qed

lemma encode_decode:
  assumes "lossless_layout L" "refs_in_bounds L e"
  shows "decode L (encode L e) = Inr e"
proof -
  from assms(1) have n: "lossless (put_nat L) (get_nat L)"
    and i: "lossless (put_instruction L) (get_instruction L)"
    and c: "lossless (put_constant L) (get_constant L)"
    and f: "lossless (put_function L) (get_function L)"
    by (simp_all add: lossless_layout_def)
  have ne: "put_function L x \<noteq> []" for x
  proof (cases "x = ([], 0, 0, 0)")
    case True
    then have "x \<noteq> ([], 1, 0, 0)" by simp
    with f show ?thesis by (rule lossless_nonempty)
  next
    case False
    with f show ?thesis by (rule lossless_nonempty)
  qed
  have g: "get_nat L (put_nat L k @ rest) = Some (k, rest)" for k rest
    using n by (simp add: lossless_def)
  have e: "\<lparr>instructions = instructions e, constants = constants e,
            function_table = function_table e\<rparr> = e" by simp
  show ?thesis
    using assms(2)
    by (simp add: decode_def encode_def g get_records_concat[OF i] get_records_concat[OF c]
        get_all_records_concat[OF f ne] e)
qed

lemma lossless_unary: "lossless put_unary get_unary"
proof -
  have "get_unary (put_unary n @ rest) = Some (n, rest)" for n rest
    by (induction n) (simp_all add: put_unary_def)
  then show ?thesis by (simp add: lossless_def)
qed

lemma get_unary_put: "get_unary (put_unary n @ rest) = Some (n, rest)"
  using lossless_unary by (simp add: lossless_def)

lemma lossless_int: "lossless put_int get_int"
  by (auto simp: lossless_def put_int_def get_int_def get_unary_put)

lemma lossless_char: "lossless put_char get_char"
  by (simp add: lossless_def put_char_def get_char_def get_unary_put)

lemma lossless_list:
  assumes "lossless p g"
  shows "lossless (put_list p) (get_list g)"
  by (simp add: lossless_def put_list_def get_list_def get_unary_put
      get_records_concat[OF assms])

lemma get_list_put:
  "lossless p g \<Longrightarrow> get_list g (put_list p xs @ rest) = Some (xs, rest)"
  using lossless_list[of p g] by (simp add: lossless_def)

lemma lossless_instr: "lossless put_instr get_instr"
  by (simp add: lossless_def put_instr_def get_instr_def get_unary_put
      get_list_put[OF lossless_unary] get_list_put[OF lossless_int])

lemma lossless_entry: "lossless put_entry get_entry"
  by (auto simp: lossless_def put_entry_def get_entry_def get_unary_put
      get_list_put[OF lossless_char])

lemma lossless_example_layout: "lossless_layout example_layout"
  by (simp add: lossless_layout_def example_layout_def lossless_unary lossless_instr
      lossless_int lossless_entry)

lemma prepare_devs_passes:
  assumes "RPC_SESS_MASK c \<noteq> 0" "device_spec_ok c (h dev)"
  shows "\<exists>devs. snd (prepare_devs c h dev) = Inr devs"
  using prepare_devs_ok[of c h dev] assms by auto

lemma bound_gpu_list:
  "[Device 2 0, Device 1 0] = bound_devices tvm0 (given_devices (heap_of (PyList [Device 2 0]) m 0))"
  by (simp add: heap_of_def given_devices_def bound_devices_def cpu_class_def
        masked_type_def py_mod_def tvm0_def tvm_cpu_def)

lemma spec_ok_gpu_list: "device_spec_ok tvm0 (heap_of (PyList [Device 2 0]) m 0)"
  by (simp add: heap_of_def device_spec_ok_def is_device_def)

lemma mask_tvm0: "RPC_SESS_MASK tvm0 \<noteq> 0"
  by (simp add: tvm0_def)

subsection \<open>The scan and the store in terms of the devices\<close>

lemma any_cpu_False_iff:
  assumes "RPC_SESS_MASK c \<noteq> 0"
  shows "(any_cpu c xs = Inr False) = (list_all is_device xs \<and> \<not> list_ex (cpu_class c) xs)"
proof (induction xs)
  case Nil
  then show ?case by simp
next
  case (Cons x xs)
  show ?case
  proof (cases "is_device x")
    case True
    then obtain t i where x: "x = Device t i" using is_deviceE by blast
    with Cons assms show ?thesis
      by (simp add: masked_type_Device cpu_class_def is_device_def)
  next
    case False
    then have "masked_type c x = Inl AttributeError"
      by (cases x) (simp_all add: masked_type_def is_device_def)
    with False show ?thesis by simp
  qed
qed


lemma setup_device_store: "fst (setup_device c h dev memory_cfg) = store_after c h dev"
proof -
  have "fst (setup_device c h dev memory_cfg) = fst (prepare_devs c h dev)"
    by (simp add: setup_device_def split: prod.splits sum.splits)
  then show ?thesis by (simp add: prepare_devs_store)
qed

lemma cpu_class_Device:
  "cpu_class c (Device t i) = (RPC_SESS_MASK c \<noteq> 0 \<and> t mod RPC_SESS_MASK c = cpu_device_type c)"
  by (simp add: cpu_class_def masked_type_def py_mod_def)











section \<open>The claims\<close>

subsection \<open>Exceptions\<close>

text \<open>
  Claim C9. When \<^verbatim>\<open>dev\<close> is a tuple, which the test of line 87 accepts, and the scan
  of line 96 finds no device of CPU class in it, the call fails with the
  \<^verbatim>\<open>AttributeError\<close> of \<^verbatim>\<open>devs.append\<close> on a tuple: nothing is appended, no other
  exception is raised, \<^verbatim>\<open>VirtualMachineInit\<close> is not reached and the store is as it
  was, whatever \<^verbatim>\<open>memory_cfg\<close> is.
\<close>

theorem tuple_without_cpu_fails:
  assumes "h dev = PyTuple xs" "any_cpu c xs = Inr False"
  shows "setup_device c h dev memory_cfg = (h, Inl AttributeError)"
  using assms by (simp add: setup_device_def prepare_devs_def normalize_dev_def)

theorem tuple_without_cpu_fails_witness:
  "heap_of (PyTuple [Device 2 0]) (PyStr ''naive'') 0 = PyTuple [Device 2 0] \<and>
   any_cpu tvm0 [Device 2 0] = Inr False \<and>
   setup_device tvm0 (heap_of (PyTuple [Device 2 0]) (PyStr ''naive'')) 0 1 =
     (heap_of (PyTuple [Device 2 0]) (PyStr ''naive''), Inl AttributeError)"
proof -
  have a: "heap_of (PyTuple [Device 2 0]) (PyStr ''naive'') 0 = PyTuple [Device 2 0]"
    by (simp add: heap_of_def)
  have b: "any_cpu tvm0 [Device 2 0] = Inr False"
    by (simp add: tvm0_def masked_type_def py_mod_def)
  from tuple_without_cpu_fails[where h = "heap_of (PyTuple [Device 2 0]) (PyStr ''naive'')"
      and dev = 0 and c = tvm0 and memory_cfg = 1, OF a b] a b
  show ?thesis by simp
qed

text \<open>
  Claim C5. When \<^verbatim>\<open>memory_cfg\<close> is a string other than \<^verbatim>\<open>"naive"\<close> and
  \<^verbatim>\<open>"pooled"\<close>, the call always ends in an exception, so \<^verbatim>\<open>VirtualMachineInit\<close> is
  never reached; and once the device argument has passed lines 86 to 97, as a device,
  a list of devices and a tuple of devices with a CPU among them do, the exception is
  the \<^verbatim>\<open>AssertionError\<close> of line 103, which the specification calls
  \<^verbatim>\<open>InvalidAllocatorStrategy\<close>.
\<close>

theorem invalid_strategy_string:
  assumes "h memory_cfg = PyStr s" "s \<noteq> ''naive''" "s \<noteq> ''pooled''"
  shows "(\<exists>e. snd (setup_device c h dev memory_cfg) = Inl e) \<and>
         ((\<exists>devs. snd (prepare_devs c h dev) = Inr devs) \<longrightarrow>
            snd (setup_device c h dev memory_cfg) = Inl AssertionError) \<and>
         (RPC_SESS_MASK c \<noteq> 0 \<and> device_spec_ok c (h dev) \<longrightarrow>
            snd (setup_device c h dev memory_cfg) = Inl AssertionError)"
proof -
  have sa: "store_after c h dev memory_cfg = PyStr s"
    using assms(1) by (simp add: store_after_not_list)
  have r: "resolve_memory_cfg (PyStr s) = Inl AssertionError"
    using assms(2,3) by (simp add: resolve_memory_cfg_def)
  obtain h1 res where p: "prepare_devs c h dev = (h1, res)" by (cases "prepare_devs c h dev")
  with prepare_devs_store[of c h dev] have h1: "h1 = store_after c h dev" by simp
  have a: "(\<exists>e. snd (setup_device c h dev memory_cfg) = Inl e) \<and>
         ((\<exists>devs. snd (prepare_devs c h dev) = Inr devs) \<longrightarrow>
            snd (setup_device c h dev memory_cfg) = Inl AssertionError)"
    by (cases res) (simp_all add: setup_device_def p h1 sa r)
  with prepare_devs_passes[of c h dev] show ?thesis by blast
qed

theorem invalid_strategy_string_witness:
  "heap_of (PyList [Device 2 0]) (PyStr ''fast'') 1 = PyStr ''fast'' \<and>
   ''fast'' \<noteq> ''naive'' \<and> ''fast'' \<noteq> ''pooled'' \<and>
   (\<exists>devs. snd (prepare_devs tvm0 (heap_of (PyList [Device 2 0]) (PyStr ''fast'')) 0) = Inr devs) \<and>
   RPC_SESS_MASK tvm0 \<noteq> 0 \<and>
   device_spec_ok tvm0 (heap_of (PyList [Device 2 0]) (PyStr ''fast'') 0) \<and>
   snd (setup_device tvm0 (heap_of (PyList [Device 2 0]) (PyStr ''fast'')) 0 1) = Inl AssertionError"
proof -
  let ?h = "heap_of (PyList [Device 2 0]) (PyStr ''fast'')"
  have a: "?h 1 = PyStr ''fast''" by (simp add: heap_of_def)
  have n: "''fast'' \<noteq> ''naive''" "''fast'' \<noteq> ''pooled''" by simp_all
  have p: "\<exists>devs. snd (prepare_devs tvm0 ?h 0) = Inr devs"
    by (simp add: prepare_devs_def normalize_dev_def heap_of_def tvm0_def masked_type_def
        py_mod_def)
  from invalid_strategy_string[where h = ?h and memory_cfg = 1 and s = "''fast''"
      and c = tvm0 and dev = 0, OF a n] p
  have "snd (setup_device tvm0 ?h 0 1) = Inl AssertionError" by blast
  with a n p mask_tvm0 spec_ok_gpu_list[of "PyStr ''fast''"] show ?thesis by blast
qed




subsection \<open>The effect on the caller's objects\<close>

text \<open>
  Claim C8. The store after the call, whether it ends in an exception or not, for a
  session mask other than zero: when
  \<^verbatim>\<open>dev\<close> is a list of devices none of which is of CPU class, the list object at the
  caller's own address \<^verbatim>\<open>dev\<close> has the CPU device appended (the method works on the
  caller's object, not on a copy); a list that holds a device of CPU class, every other
  kind of \<^verbatim>\<open>dev\<close>, and every other object of the store, \<^verbatim>\<open>memory_cfg\<close> among them, is
  unchanged.
\<close>

theorem caller_list_mutated:
  assumes "RPC_SESS_MASK c \<noteq> 0"
  shows "fst (setup_device c h dev memory_cfg) =
     (case h dev of
        PyList xs \<Rightarrow>
          if list_all is_device xs \<and> \<not> list_ex (cpu_class c) xs
          then h(dev := PyList (xs @ [tvm_cpu c])) else h
      | _ \<Rightarrow> h)"
proof -
  have scan: "(any_cpu c xs = Inr False) =
      (list_all is_device xs \<and> \<not> list_ex (cpu_class c) xs)" for xs
    using assms by (rule any_cpu_False_iff)
  have "fst (setup_device c h dev memory_cfg) = store_after c h dev"
    by (rule setup_device_store)
  also have "\<dots> =
     (case h dev of
        PyList xs \<Rightarrow>
          if list_all is_device xs \<and> \<not> list_ex (cpu_class c) xs
          then h(dev := PyList (xs @ [tvm_cpu c])) else h
      | _ \<Rightarrow> h)"
    by (simp add: store_after_def scan split: pyobj.splits)
  finally show ?thesis .
qed

theorem caller_list_mutated_witness:
  "RPC_SESS_MASK tvm0 \<noteq> 0 \<and>
   list_all is_device [Device 2 0] \<and> \<not> list_ex (cpu_class tvm0) [Device 2 0] \<and>
   fst (setup_device tvm0 (heap_of (PyList [Device 2 0]) (PyInt 7)) 0 1) =
     (heap_of (PyList [Device 2 0]) (PyInt 7)) (0 := PyList [Device 2 0, Device 1 0]) \<and>
   list_ex (cpu_class tvm0) [Device 2 0, Device 1 0] \<and>
   fst (setup_device tvm0 (heap_of (PyList [Device 2 0, Device 1 0]) PyNone) 0 1) =
     heap_of (PyList [Device 2 0, Device 1 0]) PyNone \<and>
   list_ex (cpu_class tvm0) [Device 129 0] \<and>
   fst (setup_device tvm0 (heap_of (PyList [Device 129 0]) PyNone) 0 1) =
     heap_of (PyList [Device 129 0]) PyNone \<and>
   fst (setup_device tvm0 (heap_of (PyTuple [Device 2 0]) PyNone) 0 1) =
     heap_of (PyTuple [Device 2 0]) PyNone \<and>
   fst (setup_device tvm0 (heap_of (Device 2 0) PyNone) 0 1) = heap_of (Device 2 0) PyNone"
proof -
  have c1: "list_all is_device [Device 2 0] \<and> \<not> list_ex (cpu_class tvm0) [Device 2 0]"
    by (simp add: is_device_def cpu_class_def masked_type_def py_mod_def tvm0_def)
  have c2: "list_ex (cpu_class tvm0) [Device 2 0, Device 1 0]"
    by (simp add: cpu_class_def masked_type_def py_mod_def tvm0_def)
  have c3: "list_ex (cpu_class tvm0) [Device 129 0]"
    by (simp add: cpu_class_def masked_type_def py_mod_def tvm0_def)
  have h0: "heap_of d m 0 = d" for d m by (simp add: heap_of_def)
  have cpu: "tvm_cpu tvm0 = Device 1 0" by (simp add: tvm_cpu_def tvm0_def)
  have a: "fst (setup_device tvm0 (heap_of (PyList [Device 2 0]) (PyInt 7)) 0 1) =
     (heap_of (PyList [Device 2 0]) (PyInt 7)) (0 := PyList [Device 2 0, Device 1 0])"
    using caller_list_mutated[where c = tvm0 and h = "heap_of (PyList [Device 2 0]) (PyInt 7)"
        and dev = 0 and memory_cfg = 1, OF mask_tvm0, unfolded h0] c1
    by (simp add: cpu)
  have b: "fst (setup_device tvm0 (heap_of (PyList [Device 2 0, Device 1 0]) PyNone) 0 1) =
     heap_of (PyList [Device 2 0, Device 1 0]) PyNone"
    using caller_list_mutated[where c = tvm0
        and h = "heap_of (PyList [Device 2 0, Device 1 0]) PyNone"
        and dev = 0 and memory_cfg = 1, OF mask_tvm0, unfolded h0] c2
    by auto
  have d: "fst (setup_device tvm0 (heap_of (PyList [Device 129 0]) PyNone) 0 1) =
     heap_of (PyList [Device 129 0]) PyNone"
    using caller_list_mutated[where c = tvm0 and h = "heap_of (PyList [Device 129 0]) PyNone"
        and dev = 0 and memory_cfg = 1, OF mask_tvm0, unfolded h0] c3
    by auto
  have e: "fst (setup_device tvm0 (heap_of (PyTuple [Device 2 0]) PyNone) 0 1) =
     heap_of (PyTuple [Device 2 0]) PyNone"
    using caller_list_mutated[where c = tvm0 and h = "heap_of (PyTuple [Device 2 0]) PyNone"
        and dev = 0 and memory_cfg = 1, OF mask_tvm0, unfolded h0]
    by simp
  have f: "fst (setup_device tvm0 (heap_of (Device 2 0) PyNone) 0 1) = heap_of (Device 2 0) PyNone"
    using caller_list_mutated[where c = tvm0 and h = "heap_of (Device 2 0) PyNone"
        and dev = 0 and memory_cfg = 1, OF mask_tvm0, unfolded h0]
    by simp
  from mask_tvm0 c1 c2 c3 a b d e f show ?thesis by blast
qed

subsection \<open>Allocator types\<close>

text \<open>
  Claim C1. For a device argument on which the call goes through (a device, a list of
  devices, a tuple of devices with one of CPU class), \<^verbatim>\<open>VirtualMachineInit\<close> is
  called with three arguments for each bound device, the caller's and the appended CPU
  alike, and the third of them, the allocator type, is: \<^verbatim>\<open>POOLED_ALLOCATOR\<close> for every
  device when \<^verbatim>\<open>memory_cfg\<close> is \<^verbatim>\<open>None\<close>; \<^verbatim>\<open>NAIVE_ALLOCATOR\<close> for every device
  when it is \<^verbatim>\<open>"naive"\<close> and \<^verbatim>\<open>POOLED_ALLOCATOR\<close> when it is \<^verbatim>\<open>"pooled"\<close>; and, when it
  is a dict, the value stored under the device when the device is a key, and
  \<^verbatim>\<open>POOLED_ALLOCATOR\<close> otherwise.
\<close>

theorem allocator_strategy_resolution:
  assumes "RPC_SESS_MASK c \<noteq> 0" and "device_spec_ok c (h dev)"
    and "ds = bound_devices c (given_devices (h dev))"
  shows "(h memory_cfg = PyNone \<longrightarrow>
            (\<exists>a. snd (setup_device c h dev memory_cfg) = Inr a \<and> length a = 3 * length ds \<and>
               (\<forall>k<length ds. a ! (3 * k + 2) = PyInt POOLED_ALLOCATOR))) \<and>
         (h memory_cfg = PyStr ''naive'' \<longrightarrow>
            (\<exists>a. snd (setup_device c h dev memory_cfg) = Inr a \<and> length a = 3 * length ds \<and>
               (\<forall>k<length ds. a ! (3 * k + 2) = PyInt NAIVE_ALLOCATOR))) \<and>
         (h memory_cfg = PyStr ''pooled'' \<longrightarrow>
            (\<exists>a. snd (setup_device c h dev memory_cfg) = Inr a \<and> length a = 3 * length ds \<and>
               (\<forall>k<length ds. a ! (3 * k + 2) = PyInt POOLED_ALLOCATOR))) \<and>
         (\<forall>kvs. h memory_cfg = PyDict kvs \<longrightarrow>
            (\<exists>a. snd (setup_device c h dev memory_cfg) = Inr a \<and> length a = 3 * length ds \<and>
               (\<forall>k<length ds. a ! (3 * k + 2) =
                  (case map_of kvs (ds ! k) of Some v \<Rightarrow> v | None \<Rightarrow> PyInt POOLED_ALLOCATOR))))"
proof (intro conjI impI allI)
  assume "h memory_cfg = PyNone"
  then have "resolve_memory_cfg (h memory_cfg) = Inr (POOLED_ALLOCATOR, [])"
    by (simp add: resolve_memory_cfg_def)
  from setup_device_args[OF assms(1,2) this assms(3)]
  show "\<exists>a. snd (setup_device c h dev memory_cfg) = Inr a \<and> length a = 3 * length ds \<and>
          (\<forall>k<length ds. a ! (3 * k + 2) = PyInt POOLED_ALLOCATOR)"
    by (simp add: alloc_type_Nil)
next
  assume "h memory_cfg = PyStr ''naive''"
  then have "resolve_memory_cfg (h memory_cfg) = Inr (NAIVE_ALLOCATOR, [])"
    by (simp add: resolve_memory_cfg_def)
  from setup_device_args[OF assms(1,2) this assms(3)]
  show "\<exists>a. snd (setup_device c h dev memory_cfg) = Inr a \<and> length a = 3 * length ds \<and>
          (\<forall>k<length ds. a ! (3 * k + 2) = PyInt NAIVE_ALLOCATOR)"
    by (simp add: alloc_type_Nil)
next
  assume "h memory_cfg = PyStr ''pooled''"
  then have "resolve_memory_cfg (h memory_cfg) = Inr (POOLED_ALLOCATOR, [])"
    by (simp add: resolve_memory_cfg_def)
  from setup_device_args[OF assms(1,2) this assms(3)]
  show "\<exists>a. snd (setup_device c h dev memory_cfg) = Inr a \<and> length a = 3 * length ds \<and>
          (\<forall>k<length ds. a ! (3 * k + 2) = PyInt POOLED_ALLOCATOR)"
    by (simp add: alloc_type_Nil)
next
  fix kvs
  assume "h memory_cfg = PyDict kvs"
  then have "resolve_memory_cfg (h memory_cfg) = Inr (POOLED_ALLOCATOR, kvs)"
    by (simp add: resolve_memory_cfg_def)
  from setup_device_args[OF assms(1,2) this assms(3)]
  show "\<exists>a. snd (setup_device c h dev memory_cfg) = Inr a \<and> length a = 3 * length ds \<and>
          (\<forall>k<length ds. a ! (3 * k + 2) =
             (case map_of kvs (ds ! k) of Some v \<Rightarrow> v | None \<Rightarrow> PyInt POOLED_ALLOCATOR))"
    by (simp add: alloc_type_def)
qed

theorem allocator_strategy_resolution_witness:
  "RPC_SESS_MASK tvm0 \<noteq> 0 \<and>
   device_spec_ok tvm0 (heap_of (PyList [Device 2 0]) PyNone 0) \<and>
   bound_devices tvm0 (given_devices (heap_of (PyList [Device 2 0]) PyNone 0)) =
     [Device 2 0, Device 1 0] \<and>
   (\<exists>a. snd (setup_device tvm0 (heap_of (PyList [Device 2 0]) PyNone) 0 1) = Inr a \<and>
        length a = 6 \<and> a ! 2 = PyInt POOLED_ALLOCATOR \<and> a ! 5 = PyInt POOLED_ALLOCATOR) \<and>
   (\<exists>a. snd (setup_device tvm0 (heap_of (PyList [Device 2 0]) (PyStr ''naive'')) 0 1) = Inr a \<and>
        length a = 6 \<and> a ! 2 = PyInt NAIVE_ALLOCATOR \<and> a ! 5 = PyInt NAIVE_ALLOCATOR) \<and>
   (\<exists>a. snd (setup_device tvm0 (heap_of (PyList [Device 2 0]) (PyStr ''pooled'')) 0 1) = Inr a \<and>
        length a = 6 \<and> a ! 2 = PyInt POOLED_ALLOCATOR \<and> a ! 5 = PyInt POOLED_ALLOCATOR) \<and>
   (\<exists>a. snd (setup_device tvm0
              (heap_of (PyList [Device 2 0]) (PyDict [(Device 2 0, PyInt NAIVE_ALLOCATOR)])) 0 1) =
          Inr a \<and>
        length a = 6 \<and> a ! 2 = PyInt NAIVE_ALLOCATOR \<and> a ! 5 = PyInt POOLED_ALLOCATOR)"
proof -
  let ?d = "PyList [Device 2 0]"
  let ?ds = "[Device 2 0, Device 1 0]"
  have two: "a ! 2 = x \<and> a ! 5 = y"
    if "\<forall>k<length ?ds. a ! (3 * k + 2) = f (?ds ! k)" "f (Device 2 0) = x" "f (Device 1 0) = y"
    for a :: "pyobj list" and f x y
    using that(1)[rule_format, of 0] that(1)[rule_format, of 1] that(2,3)
    by (simp add: numeral_2_eq_2)
  have n: "\<exists>a. snd (setup_device tvm0 (heap_of ?d PyNone) 0 1) = Inr a \<and>
        length a = 6 \<and> a ! 2 = PyInt POOLED_ALLOCATOR \<and> a ! 5 = PyInt POOLED_ALLOCATOR"
  proof -
    from allocator_strategy_resolution[where c = tvm0 and h = "heap_of ?d PyNone" and dev = 0
        and memory_cfg = 1, OF mask_tvm0 spec_ok_gpu_list bound_gpu_list]
    obtain a where a: "snd (setup_device tvm0 (heap_of ?d PyNone) 0 1) = Inr a"
      "length a = 3 * length ?ds"
      "\<forall>k<length ?ds. a ! (3 * k + 2) = PyInt POOLED_ALLOCATOR"
      by (auto simp: heap_of_def)
    from two[of a "\<lambda>_. PyInt POOLED_ALLOCATOR", OF a(3)] a(1,2) show ?thesis by auto
  qed
  have nv: "\<exists>a. snd (setup_device tvm0 (heap_of ?d (PyStr ''naive'')) 0 1) = Inr a \<and>
        length a = 6 \<and> a ! 2 = PyInt NAIVE_ALLOCATOR \<and> a ! 5 = PyInt NAIVE_ALLOCATOR"
  proof -
    from allocator_strategy_resolution[where c = tvm0 and h = "heap_of ?d (PyStr ''naive'')"
        and dev = 0 and memory_cfg = 1, OF mask_tvm0 spec_ok_gpu_list bound_gpu_list]
    obtain a where a: "snd (setup_device tvm0 (heap_of ?d (PyStr ''naive'')) 0 1) = Inr a"
      "length a = 3 * length ?ds"
      "\<forall>k<length ?ds. a ! (3 * k + 2) = PyInt NAIVE_ALLOCATOR"
      by (auto simp: heap_of_def)
    from two[of a "\<lambda>_. PyInt NAIVE_ALLOCATOR", OF a(3)] a(1,2) show ?thesis by auto
  qed
  have pl: "\<exists>a. snd (setup_device tvm0 (heap_of ?d (PyStr ''pooled'')) 0 1) = Inr a \<and>
        length a = 6 \<and> a ! 2 = PyInt POOLED_ALLOCATOR \<and> a ! 5 = PyInt POOLED_ALLOCATOR"
  proof -
    from allocator_strategy_resolution[where c = tvm0 and h = "heap_of ?d (PyStr ''pooled'')"
        and dev = 0 and memory_cfg = 1, OF mask_tvm0 spec_ok_gpu_list bound_gpu_list]
    obtain a where a: "snd (setup_device tvm0 (heap_of ?d (PyStr ''pooled'')) 0 1) = Inr a"
      "length a = 3 * length ?ds"
      "\<forall>k<length ?ds. a ! (3 * k + 2) = PyInt POOLED_ALLOCATOR"
      by (auto simp: heap_of_def)
    from two[of a "\<lambda>_. PyInt POOLED_ALLOCATOR", OF a(3)] a(1,2) show ?thesis by auto
  qed
  have dc: "\<exists>a. snd (setup_device tvm0
              (heap_of ?d (PyDict [(Device 2 0, PyInt NAIVE_ALLOCATOR)])) 0 1) = Inr a \<and>
        length a = 6 \<and> a ! 2 = PyInt NAIVE_ALLOCATOR \<and> a ! 5 = PyInt POOLED_ALLOCATOR"
  proof -
    let ?kvs = "[(Device 2 0, PyInt NAIVE_ALLOCATOR)]"
    from allocator_strategy_resolution[where c = tvm0 and h = "heap_of ?d (PyDict ?kvs)"
        and dev = 0 and memory_cfg = 1, OF mask_tvm0 spec_ok_gpu_list bound_gpu_list]
    obtain a where a: "snd (setup_device tvm0 (heap_of ?d (PyDict ?kvs)) 0 1) = Inr a"
      "length a = 3 * length ?ds"
      "\<forall>k<length ?ds. a ! (3 * k + 2) =
         (case map_of ?kvs (?ds ! k) of Some v \<Rightarrow> v | None \<Rightarrow> PyInt POOLED_ALLOCATOR)"
      by (auto simp: heap_of_def)
    from two[of a "\<lambda>d. case map_of ?kvs d of Some v \<Rightarrow> v | None \<Rightarrow> PyInt POOLED_ALLOCATOR",
        OF a(3)] a(1,2)
    show ?thesis by auto
  qed
  from n nv pl dc mask_tvm0 spec_ok_gpu_list[of PyNone] bound_gpu_list[of PyNone, symmetric]
  show ?thesis by blast
qed

subsection \<open>The argument list\<close>

text \<open>
  Claim C4. Whenever \<^verbatim>\<open>VirtualMachineInit\<close> is called, its arguments are one group of
  three per bound device, in the order of the caller's devices, followed by the
  appended CPU if there is one: the group at position \<open>k\<close> (arguments \<open>3k\<close>, \<open>3k+1\<close>,
  \<open>3k+2\<close>) belongs to the \<open>k\<close>-th device of that sequence. The wrapper carries no slot
  number of its own; the position of the group in the argument list is the virtual slot.
\<close>

theorem positional_slots:
  assumes "setup_device c h dev memory_cfg = (h', Inr init_args)"
    and "ds = bound_devices c (given_devices (h dev))"
  shows "(ds = given_devices (h dev) \<or> ds = given_devices (h dev) @ [tvm_cpu c]) \<and>
         length init_args = 3 * length ds \<and>
         (\<forall>k<length ds. \<exists>t i. ds ! k = Device t i \<and>
            init_args ! (3 * k) = PyInt (t mod RPC_SESS_MASK c) \<and>
            init_args ! (3 * k + 1) = PyInt i)"
proof -
  have "ds = given_devices (h dev) \<or> ds = given_devices (h dev) @ [tvm_cpu c]"
    using assms(2) by (simp add: bound_devices_def)
  with setup_device_triples[OF assms] show ?thesis by simp
qed

theorem positional_slots_witness:
  "setup_device tvm0 (heap_of (PyList [Device 2 0, Device 4 1]) PyNone) 0 1 =
     ((heap_of (PyList [Device 2 0, Device 4 1]) PyNone)
        (0 := PyList [Device 2 0, Device 4 1, Device 1 0]),
      Inr [PyInt 2, PyInt 0, PyInt 2, PyInt 4, PyInt 1, PyInt 2, PyInt 1, PyInt 0, PyInt 2]) \<and>
   [Device 2 0, Device 4 1, Device 1 0] =
     bound_devices tvm0 (given_devices (heap_of (PyList [Device 2 0, Device 4 1]) PyNone 0)) \<and>
   length [PyInt 2, PyInt 0, PyInt 2, PyInt 4, PyInt 1, PyInt 2, PyInt 1, PyInt 0, PyInt 2] =
     3 * length [Device 2 0, Device 4 1, Device 1 0] \<and>
   (\<exists>t i. [Device 2 0, Device 4 1, Device 1 0] ! 1 = Device t i \<and>
      [PyInt 2, PyInt 0, PyInt 2, PyInt 4, PyInt 1, PyInt 2, PyInt 1, PyInt 0, PyInt 2] ! (3 * 1) =
        PyInt (t mod RPC_SESS_MASK tvm0) \<and>
      [PyInt 2, PyInt 0, PyInt 2, PyInt 4, PyInt 1, PyInt 2, PyInt 1, PyInt 0, PyInt 2] ! (3 * 1 + 1) =
        PyInt i)"
proof -
  let ?h = "heap_of (PyList [Device 2 0, Device 4 1]) PyNone"
  let ?a = "[PyInt 2, PyInt 0, PyInt 2, PyInt 4, PyInt 1, PyInt 2, PyInt 1, PyInt 0, PyInt 2]"
  let ?ds = "[Device 2 0, Device 4 1, Device 1 0]"
  have s: "setup_device tvm0 ?h 0 1 = (?h(0 := PyList ?ds), Inr ?a)"
    by (simp add: setup_device_def prepare_devs_def normalize_dev_def heap_of_def tvm0_def
        masked_type_def py_mod_def tvm_cpu_def resolve_memory_cfg_def alloc_type_def
        POOLED_ALLOCATOR_def)
  have ds: "?ds = bound_devices tvm0 (given_devices (?h 0))"
    by (simp add: heap_of_def given_devices_def bound_devices_def cpu_class_def
        masked_type_def py_mod_def tvm0_def tvm_cpu_def)
  note P = positional_slots[OF s ds]
  from P have l: "length ?a = 3 * length ?ds" by blast
  from P have "\<forall>k<length ?ds. \<exists>t i. ?ds ! k = Device t i \<and>
            ?a ! (3 * k) = PyInt (t mod RPC_SESS_MASK tvm0) \<and> ?a ! (3 * k + 1) = PyInt i"
    by blast
  from this[rule_format, of 1]
  have k: "\<exists>t i. ?ds ! 1 = Device t i \<and> ?a ! (3 * 1) = PyInt (t mod RPC_SESS_MASK tvm0) \<and>
             ?a ! (3 * 1 + 1) = PyInt i"
    by simp
  from s ds l k show ?thesis by blast
qed

text \<open>
  Claim C3. Whenever \<^verbatim>\<open>VirtualMachineInit\<close> is called, the device type it receives for
  each bound device is \<^verbatim>\<open>device_type % RPC_SESS_MASK\<close>; and when one of the caller's
  devices has a type that this reduction takes to the CPU's (a remote-session CPU, for
  one), nothing is appended: the bound devices are the caller's, the store is
  unchanged, and there are three arguments per caller's device.
\<close>

theorem device_type_normalized:
  assumes "setup_device c h dev memory_cfg = (h', Inr init_args)"
    and "ds = bound_devices c (given_devices (h dev))"
  shows "(\<forall>k t i. k < length ds \<and> ds ! k = Device t i \<longrightarrow>
            init_args ! (3 * k) = PyInt (t mod RPC_SESS_MASK c)) \<and>
         (\<forall>t i. Device t i \<in> set (given_devices (h dev)) \<and>
                 t mod RPC_SESS_MASK c = cpu_device_type c \<longrightarrow>
            ds = given_devices (h dev) \<and> h' = h \<and>
            length init_args = 3 * length (given_devices (h dev)))"
proof -
  have one: "init_args ! (3 * k) = PyInt (t mod RPC_SESS_MASK c)"
    if "k < length ds \<and> ds ! k = Device t i" for k t i
    using setup_device_triples[OF assms] that by auto
  have two: "ds = given_devices (h dev) \<and> h' = h \<and>
        length init_args = 3 * length (given_devices (h dev))"
    if a: "Device t i \<in> set (given_devices (h dev)) \<and>
             t mod RPC_SESS_MASK c = cpu_device_type c" for t i
  proof -
    from setup_device_InrD[OF assms(1)] have m: "RPC_SESS_MASK c \<noteq> 0"
      and ok: "device_spec_ok c (h dev)" by simp_all
    from a m have "cpu_class c (Device t i)" by (simp add: cpu_class_def masked_type_Device)
    with a have ex: "list_ex (cpu_class c) (given_devices (h dev))"
      by (auto simp: list_ex_iff)
    then have b: "ds = given_devices (h dev)" using assms(2) by (simp add: bound_devices_cpu)
    from setup_device_Inr[OF assms(1)] have hh: "h' = store_after c h dev" by blast
    from b hh store_after_cpu[where c = c and h = h and dev = dev, OF m ok ex]
      setup_device_triples[OF assms]
    show ?thesis by simp
  qed
  from one two show ?thesis by blast
qed

theorem device_type_normalized_witness:
  "setup_device tvm0 (heap_of (PyList [Device 130 0, Device 129 3]) PyNone) 0 1 =
     (heap_of (PyList [Device 130 0, Device 129 3]) PyNone,
      Inr [PyInt 2, PyInt 0, PyInt 2, PyInt 1, PyInt 3, PyInt 2]) \<and>
   [Device 130 0, Device 129 3] =
     bound_devices tvm0 (given_devices (heap_of (PyList [Device 130 0, Device 129 3]) PyNone 0)) \<and>
   1 < length [Device 130 0, Device 129 3] \<and> [Device 130 0, Device 129 3] ! 1 = Device 129 3 \<and>
   [PyInt 2, PyInt 0, PyInt 2, PyInt 1, PyInt 3, PyInt 2] ! (3 * 1) =
     PyInt (129 mod RPC_SESS_MASK tvm0) \<and>
   Device 129 3 \<in> set (given_devices (heap_of (PyList [Device 130 0, Device 129 3]) PyNone 0)) \<and>
   129 mod RPC_SESS_MASK tvm0 = cpu_device_type tvm0 \<and>
   length [PyInt 2, PyInt 0, PyInt 2, PyInt 1, PyInt 3, PyInt 2] =
     3 * length (given_devices (heap_of (PyList [Device 130 0, Device 129 3]) PyNone 0))"
proof -
  let ?h = "heap_of (PyList [Device 130 0, Device 129 3]) PyNone"
  let ?a = "[PyInt 2, PyInt 0, PyInt 2, PyInt 1, PyInt 3, PyInt 2]"
  let ?ds = "[Device 130 0, Device 129 3]"
  have s: "setup_device tvm0 ?h 0 1 = (?h, Inr ?a)"
    by (simp add: setup_device_def prepare_devs_def normalize_dev_def heap_of_def tvm0_def
        masked_type_def py_mod_def tvm_cpu_def resolve_memory_cfg_def alloc_type_def
        POOLED_ALLOCATOR_def)
  have ds: "?ds = bound_devices tvm0 (given_devices (?h 0))"
    by (simp add: heap_of_def given_devices_def bound_devices_def cpu_class_def
        masked_type_def py_mod_def tvm0_def tvm_cpu_def)
  have r: "Device 129 3 \<in> set (given_devices (?h 0)) \<and>
           129 mod RPC_SESS_MASK tvm0 = cpu_device_type tvm0"
    by (simp add: heap_of_def given_devices_def tvm0_def)
  have k: "1 < length ?ds \<and> ?ds ! 1 = Device 129 3" by simp
  note P = device_type_normalized[OF s ds]
  from P k have t: "?a ! (3 * 1) = PyInt (129 mod RPC_SESS_MASK tvm0)" by blast
  from P r have l: "length ?a = 3 * length (given_devices (?h 0))" by blast
  from s ds k t r l show ?thesis by blast
qed

text \<open>
  Claim C10. The values of a \<^verbatim>\<open>memory_cfg\<close> dict are not checked: whatever value the
  dict holds for a bound device is handed to \<^verbatim>\<open>VirtualMachineInit\<close> as that device's
  allocator type, as it is, and the call goes through. A string is what gets checked:
  as the global \<^verbatim>\<open>memory_cfg\<close>, a string other than \<^verbatim>\<open>"naive"\<close> and \<^verbatim>\<open>"pooled"\<close> always
  ends in an exception.
\<close>

theorem mapping_values_unchecked:
  assumes "RPC_SESS_MASK c \<noteq> 0" and "device_spec_ok c (h dev)"
    and "h memory_cfg = PyDict kvs"
    and "ds = bound_devices c (given_devices (h dev))"
    and "k < length ds" and "map_of kvs (ds ! k) = Some v"
  shows "(\<exists>a. snd (setup_device c h dev memory_cfg) = Inr a \<and> a ! (3 * k + 2) = v) \<and>
         (\<forall>g m s. g m = PyStr s \<and> s \<noteq> ''naive'' \<and> s \<noteq> ''pooled'' \<longrightarrow>
            (\<exists>e. snd (setup_device c g dev m) = Inl e))"
proof -
  from assms(3) have r: "resolve_memory_cfg (h memory_cfg) = Inr (POOLED_ALLOCATOR, kvs)"
    by (simp add: resolve_memory_cfg_def)
  from setup_device_args[OF assms(1,2) r assms(4)] assms(5,6)
  have one: "\<exists>a. snd (setup_device c h dev memory_cfg) = Inr a \<and> a ! (3 * k + 2) = v"
    by (auto simp: alloc_type_def)
  have two: "\<exists>e. snd (setup_device c g dev m) = Inl e"
    if "g m = PyStr s \<and> s \<noteq> ''naive'' \<and> s \<noteq> ''pooled''" for g m s
    using that setup_device_bad_string[where h = g and memory_cfg = m and s = s] by blast
  from one two show ?thesis by blast
qed

theorem mapping_values_unchecked_witness:
  "RPC_SESS_MASK tvm0 \<noteq> 0 \<and>
   device_spec_ok tvm0 (heap_of (PyList [Device 2 0]) (PyDict [(Device 2 0, PyStr ''fast'')]) 0) \<and>
   heap_of (PyList [Device 2 0]) (PyDict [(Device 2 0, PyStr ''fast'')]) 1 =
     PyDict [(Device 2 0, PyStr ''fast'')] \<and>
   [Device 2 0, Device 1 0] = bound_devices tvm0
     (given_devices (heap_of (PyList [Device 2 0]) (PyDict [(Device 2 0, PyStr ''fast'')]) 0)) \<and>
   0 < length [Device 2 0, Device 1 0] \<and>
   map_of [(Device 2 0, PyStr ''fast'')] ([Device 2 0, Device 1 0] ! 0) = Some (PyStr ''fast'') \<and>
   (\<exists>a. snd (setup_device tvm0
             (heap_of (PyList [Device 2 0]) (PyDict [(Device 2 0, PyStr ''fast'')])) 0 1) = Inr a \<and>
        a ! (3 * 0 + 2) = PyStr ''fast'') \<and>
   heap_of (PyList [Device 2 0]) (PyStr ''fast'') 1 = PyStr ''fast'' \<and>
   ''fast'' \<noteq> ''naive'' \<and> ''fast'' \<noteq> ''pooled'' \<and>
   (\<exists>e. snd (setup_device tvm0 (heap_of (PyList [Device 2 0]) (PyStr ''fast'')) 0 1) = Inl e)"
proof -
  let ?h = "heap_of (PyList [Device 2 0]) (PyDict [(Device 2 0, PyStr ''fast'')])"
  let ?g = "heap_of (PyList [Device 2 0]) (PyStr ''fast'')"
  have cfg: "?h 1 = PyDict [(Device 2 0, PyStr ''fast'')]" by (simp add: heap_of_def)
  have k: "0 < length [Device 2 0, Device 1 0]" by simp
  have v: "map_of [(Device 2 0, PyStr ''fast'')] ([Device 2 0, Device 1 0] ! 0) =
           Some (PyStr ''fast'')" by simp
  have g: "?g 1 = PyStr ''fast'' \<and> ''fast'' \<noteq> ''naive'' \<and> ''fast'' \<noteq> ''pooled''"
    by (simp add: heap_of_def)
  note M = mapping_values_unchecked[where c = tvm0 and h = ?h and dev = 0 and memory_cfg = 1,
      OF mask_tvm0 spec_ok_gpu_list cfg bound_gpu_list k v]
  from M have one: "\<exists>a. snd (setup_device tvm0 ?h 0 1) = Inr a \<and> a ! (3 * 0 + 2) = PyStr ''fast''"
    by blast
  from M g have two: "\<exists>e. snd (setup_device tvm0 ?g 0 1) = Inl e" by blast
  from one two g cfg k v mask_tvm0
    spec_ok_gpu_list[of "PyDict [(Device 2 0, PyStr ''fast'')]"]
    bound_gpu_list[of "PyDict [(Device 2 0, PyStr ''fast'')]"]
  show ?thesis by blast
qed

subsection \<open>The CPU device\<close>

text \<open>
  Claim C2. The claim: for every device sequence of the caller in which no device is
  of CPU class, one CPU binding is appended after the caller's devices. For a list the
  method does so (\<open>cpu_appended_to_list\<close>). For a tuple, which line 87 accepts as
  a sequence just as it accepts a list, it does not: with the two devices (2, 0) and
  (2, 1), mask 128 and CPU type 1, the list yields the two bindings and the CPU's, and
  the tuple of the same two devices ends in the \<^verbatim>\<open>AttributeError\<close> of
  \<^verbatim>\<open>devs.append\<close>, with no binding at all.
\<close>

theorem cpu_append_fails_on_tuple:
  "snd (setup_device tvm0 (heap_of (PyList [Device 2 0, Device 2 1]) PyNone) 0 1) =
     Inr [PyInt 2, PyInt 0, PyInt 2, PyInt 2, PyInt 1, PyInt 2, PyInt 1, PyInt 0, PyInt 2] \<and>
   setup_device tvm0 (heap_of (PyTuple [Device 2 0, Device 2 1]) PyNone) 0 1 =
     (heap_of (PyTuple [Device 2 0, Device 2 1]) PyNone, Inl AttributeError)"
  by (simp add: setup_device_def prepare_devs_def normalize_dev_def heap_of_def tvm0_def
      masked_type_def py_mod_def tvm_cpu_def resolve_memory_cfg_def alloc_type_def
      POOLED_ALLOCATOR_def)

subsection \<open>The codec\<close>

text \<open>
  Claim C7. In the model of the codec drawn from the specification, with any layout
  whose writers and readers fit together: decoding the encoding of a valid executable
  gives the executable back, the same instructions, constants and function table; and
  so does loading a file that \<^verbatim>\<open>save_to_file\<close> wrote.
\<close>

theorem codec_round_trip:
  assumes "lossless_layout L" and "valid_executable L e"
  shows "decode L (encode L e) = Inr e \<and>
         load_exec_from_file L (save_to_file L fs e file_name) file_name = Inr e"
proof -
  from assms(2) have "refs_in_bounds L e" by (simp add: valid_executable_def)
  with assms(1) have "decode L (encode L e) = Inr e" by (rule encode_decode)
  then show ?thesis
    by (simp add: load_exec_from_file_def save_to_file_def ExecutableLoadFromFile_def
        ExecutableSaveToFile_def)
qed

theorem codec_round_trip_witness:
  "lossless_layout example_layout \<and> valid_executable example_layout example_executable \<and>
   decode example_layout (encode example_layout example_executable) = Inr example_executable \<and>
   load_exec_from_file example_layout
     (save_to_file example_layout Map.empty example_executable ''main.exec'') ''main.exec'' =
     Inr example_executable"
proof -
  have v: "valid_executable example_layout example_executable"
    by (simp add: valid_executable_def refs_in_bounds_def example_layout_def
        example_executable_def)
  from codec_round_trip[OF lossless_example_layout v, of Map.empty "''main.exec''"]
    lossless_example_layout v
  show ?thesis by simp
qed

end
